theory Spec2Isabelle
  imports Main "HOL-Library.Word" "HOL-Library.AList" "HOL-Library.Sublist"
begin

section \<open>JavaScript values and built-ins used by the two functions\<close>

text \<open>
  Strings are lists of 8-bit code units (the Latin-1 range of JavaScript's UTF-16 code
  units).  A property that may be \<^verbatim>\<open>undefined\<close> is an \<open>option\<close>, a thrown
  exception is a constructor of its own, and \<^verbatim>\<open>console.log\<close> is left out.
  Numbers are integers or \<^verbatim>\<open>NaN\<close>: every number the code computes comes from
  \<^verbatim>\<open>parseInt\<close>, \<^verbatim>\<open>Math.min\<close> or a byte length, and the model agrees with
  IEEE doubles on integers below \<open>2^53\<close>.
\<close>

datatype number = NaN | Num int

type_synonym byte = "8 word"
type_synonym bytes = "byte list"

text \<open>Truthiness of a possibly undefined string: defined and not empty.\<close>

fun truthy :: "string option \<Rightarrow> bool" where
  "truthy None = False"
| "truthy (Some s) = (s \<noteq> [])"

text \<open>Truthiness of a number: neither \<^verbatim>\<open>NaN\<close> nor zero; \<^verbatim>\<open>a || b\<close> on numbers.\<close>

fun truthy_number :: "number \<Rightarrow> bool" where
  "truthy_number NaN = False"
| "truthy_number (Num n) = (n \<noteq> 0)"

definition js_or :: "number \<Rightarrow> number \<Rightarrow> number" where
  "js_or a b = (if truthy_number a then a else b)"

fun Math_min :: "number \<Rightarrow> number \<Rightarrow> number" where
  "Math_min (Num a) (Num b) = Num (min a b)"
| "Math_min _ _ = NaN"

fun startsWith :: "string \<Rightarrow> string \<Rightarrow> bool" where
  "startsWith s [] = True"
| "startsWith [] (p # ps) = False"
| "startsWith (c # cs) (p # ps) = (c = p \<and> startsWith cs ps)"

definition endsWith :: "string \<Rightarrow> string \<Rightarrow> bool" where
  "endsWith s p = startsWith (rev s) (rev p)"

fun str_includes :: "string \<Rightarrow> string \<Rightarrow> bool" where
  "str_includes [] p = (p = [])"
| "str_includes (c # cs) p = (startsWith (c # cs) p \<or> str_includes cs p)"

text \<open>\<^verbatim>\<open>s.replace(pattern, replacement)\<close> with a string pattern: the first occurrence only.\<close>

fun str_replace :: "string \<Rightarrow> string \<Rightarrow> string \<Rightarrow> string" where
  "str_replace [] pat rep = (if pat = [] then rep else [])"
| "str_replace (c # cs) pat rep =
     (if startsWith (c # cs) pat then rep @ drop (length pat) (c # cs)
      else c # str_replace cs pat rep)"

text \<open>\<^verbatim>\<open>s.replace(/,/g, "&")\<close>: every comma.\<close>

definition replace_commas :: "string \<Rightarrow> string" where
  "replace_commas s = map (\<lambda>c. if c = CHR '','' then CHR ''&'' else c) s"

text \<open>\<^verbatim>\<open>s.split(sep)\<close> for a one-character separator: never the empty array.\<close>

fun str_split :: "char \<Rightarrow> string \<Rightarrow> string list" where
  "str_split sep [] = [[]]"
| "str_split sep (c # cs) =
     (if c = sep then [] # str_split sep cs
      else (case str_split sep cs of
              [] \<Rightarrow> [[c]]
            | x # xs \<Rightarrow> (c # x) # xs))"

fun join :: "string \<Rightarrow> string list \<Rightarrow> string" where
  "join sep [] = []"
| "join sep [x] = x"
| "join sep (x # y # ys) = x @ sep @ join sep (y # ys)"

definition upper_case_letters :: string where
  "upper_case_letters = ''ABCDEFGHIJKLMNOPQRSTUVWXYZ'' @
     [
      CHR 0xC0, CHR 0xC1, CHR 0xC2, CHR 0xC3, CHR 0xC4, CHR 0xC5, CHR 0xC6, CHR 0xC7,
      CHR 0xC8, CHR 0xC9, CHR 0xCA, CHR 0xCB, CHR 0xCC, CHR 0xCD, CHR 0xCE, CHR 0xCF,
      CHR 0xD0, CHR 0xD1, CHR 0xD2, CHR 0xD3, CHR 0xD4, CHR 0xD5, CHR 0xD6, CHR 0xD8,
      CHR 0xD9, CHR 0xDA, CHR 0xDB, CHR 0xDC, CHR 0xDD, CHR 0xDE]"

definition lower_case_letters :: string where
  "lower_case_letters = ''abcdefghijklmnopqrstuvwxyz'' @
     [
      CHR 0xE0, CHR 0xE1, CHR 0xE2, CHR 0xE3, CHR 0xE4, CHR 0xE5, CHR 0xE6, CHR 0xE7,
      CHR 0xE8, CHR 0xE9, CHR 0xEA, CHR 0xEB, CHR 0xEC, CHR 0xED, CHR 0xEE, CHR 0xEF,
      CHR 0xF0, CHR 0xF1, CHR 0xF2, CHR 0xF3, CHR 0xF4, CHR 0xF5, CHR 0xF6, CHR 0xF8,
      CHR 0xF9, CHR 0xFA, CHR 0xFB, CHR 0xFC, CHR 0xFD, CHR 0xFE]"

definition toLowerCase_char :: "char \<Rightarrow> char" where
  "toLowerCase_char c =
     (case map_of (zip upper_case_letters lower_case_letters) c of
        None \<Rightarrow> c
      | Some l \<Rightarrow> l)"

definition toLowerCase :: "string \<Rightarrow> string" where
  "toLowerCase s = map toLowerCase_char s"

subsection \<open>\<^verbatim>\<open>parseInt\<close> and \<^verbatim>\<open>Number.prototype.toString\<close>\<close>

definition isWhiteSpace :: "char \<Rightarrow> bool" where
  "isWhiteSpace c = (c \<in> set [CHR 0x09, CHR 0x0A, CHR 0x0B, CHR 0x0C, CHR 0x0D, CHR 0x20, CHR 0xA0])"

definition digit_value :: "char \<Rightarrow> nat option" where
  "digit_value c =
     (let n = (of_char c :: nat)
      in if 48 \<le> n \<and> n \<le> 57 then Some (n - 48)
         else if 97 \<le> n \<and> n \<le> 102 then Some (n - 87)
         else if 65 \<le> n \<and> n \<le> 70 then Some (n - 55)
         else None)"

definition is_digit :: "nat \<Rightarrow> char \<Rightarrow> bool" where
  "is_digit radix c = (case digit_value c of None \<Rightarrow> False | Some d \<Rightarrow> d < radix)"

definition digits_value :: "nat \<Rightarrow> string \<Rightarrow> nat" where
  "digits_value radix ds =
     foldl (\<lambda>acc c. acc * radix + (case digit_value c of None \<Rightarrow> 0 | Some d \<Rightarrow> d)) 0 ds"

text \<open>
  \<^verbatim>\<open>parseInt(s)\<close> without a radix: leading white space is skipped, then an optional
  sign, then an optional \<^verbatim>\<open>0x\<close> prefix that selects radix 16, then the longest run of
  digits; no digit at all gives \<^verbatim>\<open>NaN\<close>.
\<close>

definition parseInt :: "string \<Rightarrow> number" where
  "parseInt s =
     (let s1 = dropWhile isWhiteSpace s;
          negative = startsWith s1 ''-'';
          s2 = (if startsWith s1 ''-'' \<or> startsWith s1 ''+'' then drop 1 s1 else s1);
          hex = (startsWith s2 ''0x'' \<or> startsWith s2 ''0X'');
          radix = (if hex then 16 else 10);
          s3 = (if hex then drop 2 s2 else s2);
          ds = takeWhile (is_digit radix) s3
      in if ds = [] then NaN
         else Num ((if negative then - 1 else 1) * int (digits_value radix ds)))"

text \<open>\<^verbatim>\<open>parseInt(undefined)\<close> reads the string \<^verbatim>\<open>"undefined"\<close>, which has no digit.\<close>

fun parseInt_arg :: "string option \<Rightarrow> number" where
  "parseInt_arg None = NaN"
| "parseInt_arg (Some s) = parseInt s"

fun nat_toString :: "nat \<Rightarrow> string" where
  "nat_toString n =
     (if n < 10 then [''0123456789'' ! n]
      else nat_toString (n div 10) @ [''0123456789'' ! (n mod 10)])"

definition int_toString :: "int \<Rightarrow> string" where
  "int_toString i = (if i < 0 then CHR ''-'' # nat_toString (nat (- i)) else nat_toString (nat i))"

subsection \<open>\<^verbatim>\<open>Buffer.prototype.toString('base64')\<close>\<close>

definition base64_alphabet :: string where
  "base64_alphabet = ''ABCDEFGHIJKLMNOPQRSTUVWXYZabcdefghijklmnopqrstuvwxyz0123456789+/''"

definition base64_char :: "nat \<Rightarrow> char" where
  "base64_char n = base64_alphabet ! (n mod 64)"

fun base64_nat :: "nat list \<Rightarrow> string" where
  "base64_nat [] = []"
| "base64_nat [a] =
     [base64_char (a div 4), base64_char ((a mod 4) * 16), CHR ''='', CHR ''='']"
| "base64_nat [a, b] =
     [base64_char (a div 4), base64_char ((a mod 4) * 16 + b div 16),
      base64_char ((b mod 16) * 4), CHR ''='']"
| "base64_nat (a # b # c # rest) =
     [base64_char (a div 4), base64_char ((a mod 4) * 16 + b div 16),
      base64_char ((b mod 16) * 4 + c div 64), base64_char (c mod 64)] @ base64_nat rest"

definition base64 :: "bytes \<Rightarrow> string" where
  "base64 bs = base64_nat (map unat bs)"

section \<open>The image-processing function: \<^verbatim>\<open>functions/image-processing/index.js\<close>\<close>

text \<open>
  The file holds several versions of the function, one after the other.  The one modelled
  here is the version the edge function of the repository is written for: it declares
  \<^verbatim>\<open>SUPPORTED_EXTENSIONS\<close> and \<^verbatim>\<open>TRANSFORMED_FOLDER_PREFIX\<close> and knows the
  operations \<^verbatim>\<open>w\<close>, \<^verbatim>\<open>h\<close>, \<^verbatim>\<open>mw\<close>, \<^verbatim>\<open>mh\<close> and \<^verbatim>\<open>f\<close>.
\<close>

subsection \<open>Environment, events and responses\<close>

text \<open>
  The function reads its configuration from \<^verbatim>\<open>process.env\<close>; the stack sets every
  entry of it to a string (\<^verbatim>\<open>lambdaEnv\<close>).
\<close>

record lambda_env =
  originalImageBucketName :: string
  transformedImageBucketName :: string
  transformedImageCacheTTL :: string
  autoTransformImageSizes :: string
  autoTransformImageFormats :: string
  allowTransformImageWidths :: string
  allowTransformImageHeights :: string
  secretKey :: string
  maxImageSize :: string

definition MAX_IMAGE_SIZE :: "lambda_env \<Rightarrow> number" where
  "MAX_IMAGE_SIZE env = parseInt (maxImageSize env)"

definition SUPPORTED_EXTENSIONS :: "string list" where
  "SUPPORTED_EXTENSIONS = [''.jpg'', ''.jpeg'', ''.webp'', ''.avif'', ''.png'']"

definition TRANSFORMED_FOLDER_PREFIX :: string where
  "TRANSFORMED_FOLDER_PREFIX = ''transformed''"

record s3_event_record =
  eventName :: string
  object_key :: string

record http_context =
  http_method :: string
  http_path :: string

record request_context =
  http :: "http_context option"

record event =
  Records :: "s3_event_record list option"
  event_headers :: "(string \<Rightarrow> string option) option"
  requestContext :: "request_context option"

record response =
  statusCode :: int
  body :: "string option"
  isBase64Encoded :: "bool option"
  headers :: "(string \<times> string) list option"

definition sendError :: "int \<Rightarrow> string \<Rightarrow> response" where
  "sendError code text =
     \<lparr>statusCode = code, body = Some text, isBase64Encoded = None, headers = None\<rparr>"

subsection \<open>The object store and the image codec\<close>

text \<open>
  The store is outside the program: its state is a parameter \<open>'s\<close>, and a call returns
  its result with the next state.  \<open>None\<close> from \<open>S3_getObject\<close> and \<open>False\<close> from
  \<open>S3_putObject\<close> are a rejected promise.  The codec is a pure library: a chain of calls
  on a \<^verbatim>\<open>Sharp\<close> object is the list of those calls, and \<open>Sharp_toBuffer\<close> runs it
  (\<open>None\<close>: some call of the chain threw).  \<open>Sharp_metadata\<close> stands for the constructor
  and \<^verbatim>\<open>metadata()\<close>.
\<close>

record get_request =
  get_Bucket :: string
  get_Key :: string

record s3_object =
  object_Body :: bytes
  object_ContentType :: string

record put_request =
  put_Body :: bytes
  put_Bucket :: string
  put_Key :: string
  put_ContentType :: string
  put_Metadata :: "(string \<times> string) list"

record image_metadata =
  image_width :: int
  image_height :: int
  orientation :: "nat option"

record resizing_options =
  width :: "number option"
  height :: "number option"
  fit :: "string option"

text \<open>\<open>ToFormat f None\<close> is \<^verbatim>\<open>toFormat(f)\<close>; \<open>ToFormat f (Some q)\<close> is \<^verbatim>\<open>toFormat(f, {quality: q})\<close>.\<close>

datatype sharp_call = Resize resizing_options | Rotate | ToFormat string "number option"

record 's services =
  S3_getObject :: "get_request \<Rightarrow> 's \<Rightarrow> s3_object option \<times> 's"
  S3_putObject :: "put_request \<Rightarrow> 's \<Rightarrow> bool \<times> 's"
  Sharp_metadata :: "bytes \<Rightarrow> image_metadata option"
  Sharp_toBuffer :: "bytes \<Rightarrow> sharp_call list \<Rightarrow> bytes option"

text \<open>Every call a run makes to the store or the codec is recorded, in order.\<close>

datatype call =
    GetObject get_request
  | Metadata bytes
  | ToBuffer bytes "sharp_call list"
  | PutObject put_request

datatype 'a outcome = Returned 'a | Thrown

subsection \<open>\<^verbatim>\<open>transformImage\<close>\<close>

text \<open>
  \<^verbatim>\<open>Object.fromEntries(operationsPrefix.split(',').map(operation => operation.split('=')))\<close>:
  a later entry overwrites an earlier one, and an operation without \<^verbatim>\<open>=\<close> maps its key
  to \<^verbatim>\<open>undefined\<close>.
\<close>

definition entry :: "string \<Rightarrow> string \<times> string option" where
  "entry operation =
     (case str_split CHR ''='' operation of
        [] \<Rightarrow> ([], None)
      | [k] \<Rightarrow> (k, None)
      | k # v # _ \<Rightarrow> (k, Some v))"

definition fromEntries :: "(string \<times> string option) list \<Rightarrow> string \<Rightarrow> string option" where
  "fromEntries entries = foldl (\<lambda>obj (k, v). obj(k := v)) (\<lambda>_. None) entries"

definition operationsJSON_of :: "string \<Rightarrow> string \<Rightarrow> string option" where
  "operationsJSON_of operationsPrefix =
     fromEntries (map entry (str_split CHR '','' operationsPrefix))"

definition truthy_orientation :: "nat option \<Rightarrow> bool" where
  "truthy_orientation v = (case v of None \<Rightarrow> False | Some n \<Rightarrow> n \<noteq> 0)"

definition resizingOptions ::
  "(string \<Rightarrow> string option) \<Rightarrow> image_metadata \<Rightarrow> resizing_options" where
  "resizingOptions operationsJSON imageMetadata =
     (let imageTransformWidth = parseInt_arg (operationsJSON ''w'');
          imageTransformHeight = parseInt_arg (operationsJSON ''h'');
          imageTransformMaxWidth = parseInt_arg (operationsJSON ''mw'');
          imageTransformMaxHeight = parseInt_arg (operationsJSON ''mh'');
          w = Num (image_width imageMetadata);
          h = Num (image_height imageMetadata);
          r0 = \<lparr>width = None, height = None, fit = None\<rparr>;
          r1 = (if truthy (operationsJSON ''w'')
                then r0\<lparr>width := Some (Math_min (js_or imageTransformWidth w) w)\<rparr> else r0);
          r2 = (if truthy (operationsJSON ''h'')
                then r1\<lparr>height := Some (Math_min (js_or imageTransformHeight h) h)\<rparr> else r1);
          r3 = (if truthy (operationsJSON ''mw'')
                then r2\<lparr>width := Some (Math_min (js_or imageTransformMaxWidth w) w),
                        fit := Some ''inside''\<rparr>
                else r2);
          r4 = (if truthy (operationsJSON ''mh'')
                then r3\<lparr>height := Some (Math_min (js_or imageTransformMaxHeight h) h),
                        fit := Some ''inside''\<rparr>
                else r3)
      in r4)"

text \<open>The \<^verbatim>\<open>switch\<close> on the format: the content type and whether the format is lossy.\<close>

definition format_switch :: "string \<Rightarrow> string \<times> bool" where
  "format_switch f =
     (if f = ''jpeg'' then (''image/jpeg'', True)
      else if f = ''gif'' then (''image/gif'', False)
      else if f = ''webp'' then (''image/webp'', True)
      else if f = ''png'' then (''image/png'', False)
      else if f = ''avif'' then (''image/avif'', True)
      else (''image/jpeg'', True))"

text \<open>
  The resizing part of the \<^verbatim>\<open>try\<close> block.  With both allow-lists set, the lookup
  \<^verbatim>\<open>allowTransformImageWidths.allowTransformImageWidths.indexOf\<close> reads a property of
  \<^verbatim>\<open>undefined\<close> and throws a \<^verbatim>\<open>TypeError\<close>: \<open>None\<close>.
\<close>

definition resize_calls ::
  "lambda_env \<Rightarrow> (string \<Rightarrow> string option) \<Rightarrow> image_metadata \<Rightarrow> sharp_call list option" where
  "resize_calls env operationsJSON imageMetadata =
     (if \<not> truthy (operationsJSON ''org'') then
        (if allowTransformImageWidths env \<noteq> '''' \<and> allowTransformImageHeights env \<noteq> ''''
         then None
         else Some ([Resize (resizingOptions operationsJSON imageMetadata)] @
                    (if truthy_orientation (orientation imageMetadata) then [Rotate] else [])))
      else Some [])"

text \<open>The formatting part: the call added to the chain, and the content type.\<close>

definition format_calls ::
  "(string \<Rightarrow> string option) \<Rightarrow> string \<Rightarrow> sharp_call list \<times> string" where
  "format_calls operationsJSON contentType =
     (case operationsJSON ''f'' of
        None \<Rightarrow> ([], contentType)
      | Some f \<Rightarrow>
          (if f \<noteq> [] \<and> f \<noteq> ''org'' then
             (let (contentType', isLossy) = format_switch f
              in if truthy (operationsJSON ''quality'') \<and> isLossy
                 then ([ToFormat f (Some (parseInt_arg (operationsJSON ''quality'')))], contentType')
                 else ([ToFormat f None], contentType'))
           else ([], contentType)))"

definition transform_calls ::
  "lambda_env \<Rightarrow> (string \<Rightarrow> string option) \<Rightarrow> image_metadata \<Rightarrow> string
     \<Rightarrow> (sharp_call list \<times> string) option" where
  "transform_calls env operationsJSON imageMetadata contentType =
     (case resize_calls env operationsJSON imageMetadata of
        None \<Rightarrow> None
      | Some resizing \<Rightarrow>
          (let (formatting, contentType') = format_calls operationsJSON contentType
           in Some (resizing @ formatting, contentType')))"

text \<open>
  The first half of \<^verbatim>\<open>transformImage\<close>: download, decode, transform.  It ends with an
  early \<^verbatim>\<open>return sendError(500, ...)\<close>, with an exception (\<^verbatim>\<open>metadata()\<close> is
  awaited outside any \<^verbatim>\<open>try\<close>), or with the transformed bytes and their content type.
\<close>

definition fetch_and_transform ::
  "lambda_env \<Rightarrow> 's services \<Rightarrow> string \<Rightarrow> string \<Rightarrow> 's
     \<Rightarrow> (response outcome + bytes \<times> string) \<times> 's \<times> call list" where
  "fetch_and_transform env srv originalImagePath operationsPrefix s =
     (let get = \<lparr>get_Bucket = originalImageBucketName env, get_Key = originalImagePath\<rparr>;
          (fetched, s1) = S3_getObject srv get s
      in case fetched of
           None \<Rightarrow>
             (Inl (Returned (sendError 500 ''Error downloading original image'')), s1,
              [GetObject get])
         | Some originalImage \<Rightarrow>
             (let input = object_Body originalImage
              in case Sharp_metadata srv input of
                   None \<Rightarrow> (Inl Thrown, s1, [GetObject get, Metadata input])
                 | Some imageMetadata \<Rightarrow>
                     (case transform_calls env (operationsJSON_of operationsPrefix) imageMetadata
                             (object_ContentType originalImage) of
                        None \<Rightarrow>
                          (Inl (Returned (sendError 500 ''error transforming image'')), s1,
                           [GetObject get, Metadata input])
                      | Some (calls, contentType) \<Rightarrow>
                          (case Sharp_toBuffer srv input calls of
                             None \<Rightarrow>
                               (Inl (Returned (sendError 500 ''error transforming image'')), s1,
                                [GetObject get, Metadata input, ToBuffer input calls])
                           | Some transformedImage \<Rightarrow>
                               (Inr (transformedImage, contentType), s1,
                                [GetObject get, Metadata input, ToBuffer input calls])))))"

definition imageTooBig :: "lambda_env \<Rightarrow> bytes \<Rightarrow> bool" where
  "imageTooBig env transformedImage =
     (case MAX_IMAGE_SIZE env of
        NaN \<Rightarrow> False
      | Num m \<Rightarrow> m < int (length transformedImage))"

definition shortenOperationsPrefix :: "string \<Rightarrow> string" where
  "shortenOperationsPrefix operationsPrefix =
     (let shortened =
            str_replace (str_replace (str_replace operationsPrefix ''org,f=org'' '''') ''org,'' '''')
              '',f=org'' ''''
      in if shortened = '''' then ''original'' else shortened)"

definition derived_key :: "string \<Rightarrow> string \<Rightarrow> string" where
  "derived_key originalImagePath operationsPrefix =
     str_replace originalImagePath ''/static-assets/''
       (''/'' @ TRANSFORMED_FOLDER_PREFIX @ ''/static-assets/'')
     @ ''/'' @ shortenOperationsPrefix operationsPrefix"

definition upload_request ::
  "lambda_env \<Rightarrow> string \<Rightarrow> string \<Rightarrow> bytes \<Rightarrow> string \<Rightarrow> put_request" where
  "upload_request env originalImagePath operationsPrefix transformedImage contentType =
     \<lparr>put_Body = transformedImage,
      put_Bucket = transformedImageBucketName env,
      put_Key = derived_key originalImagePath operationsPrefix,
      put_ContentType = contentType,
      put_Metadata = [(''cache-control'', transformedImageCacheTTL env)]\<rparr>"

definition redirect_response :: "string \<Rightarrow> string \<Rightarrow> response" where
  "redirect_response originalImagePath operationsPrefix =
     \<lparr>statusCode = 302, body = None, isBase64Encoded = None,
      headers = Some [(''Location'', ''/'' @ originalImagePath @ ''?'' @ replace_commas operationsPrefix),
                      (''Cache-Control'', ''private,no-store'')]\<rparr>"

definition image_response :: "lambda_env \<Rightarrow> bytes \<Rightarrow> string \<Rightarrow> response" where
  "image_response env transformedImage contentType =
     \<lparr>statusCode = 200, body = Some (base64 transformedImage), isBase64Encoded = Some True,
      headers = Some [(''Content-Type'', contentType),
                      (''Cache-Control'', transformedImageCacheTTL env)]\<rparr>"

text \<open>
  The second half: the size check, the upload inside its own \<^verbatim>\<open>try\<close> (a failure is
  logged and nothing else), and the response.
\<close>

definition upload_and_respond ::
  "lambda_env \<Rightarrow> 's services \<Rightarrow> string \<Rightarrow> string \<Rightarrow> bytes \<Rightarrow> string \<Rightarrow> 's
     \<Rightarrow> response \<times> 's \<times> call list" where
  "upload_and_respond env srv originalImagePath operationsPrefix transformedImage contentType s =
     (let put = upload_request env originalImagePath operationsPrefix transformedImage contentType;
          (uploaded, s') = S3_putObject srv put s
      in if uploaded \<and> imageTooBig env transformedImage
         then (redirect_response originalImagePath operationsPrefix, s', [PutObject put])
         else if imageTooBig env transformedImage
         then (sendError 403 ''Requested transformed image is too big'', s', [PutObject put])
         else (image_response env transformedImage contentType, s', [PutObject put]))"

definition transformImage ::
  "lambda_env \<Rightarrow> 's services \<Rightarrow> string \<Rightarrow> string \<Rightarrow> 's \<Rightarrow> response outcome \<times> 's \<times> call list" where
  "transformImage env srv originalImagePath operationsPrefix s =
     (case fetch_and_transform env srv originalImagePath operationsPrefix s of
        (Inl stopped, s1, calls) \<Rightarrow> (stopped, s1, calls)
      | (Inr (transformedImage, contentType), s1, calls) \<Rightarrow>
          (let (res, s2, calls') =
                 upload_and_respond env srv originalImagePath operationsPrefix transformedImage
                   contentType s1
           in (Returned res, s2, calls @ calls')))"

subsection \<open>\<^verbatim>\<open>handler\<close>\<close>

text \<open>The upload branch runs every size with every format, and stops at an exception.\<close>

fun transform_each ::
  "lambda_env \<Rightarrow> 's services \<Rightarrow> string \<Rightarrow> string list \<Rightarrow> 's
     \<Rightarrow> response option outcome \<times> 's \<times> call list" where
  "transform_each env srv originalImagePath [] s = (Returned None, s, [])"
| "transform_each env srv originalImagePath (operationsPrefix # rest) s =
     (case transformImage env srv originalImagePath operationsPrefix s of
        (Thrown, s1, calls) \<Rightarrow> (Thrown, s1, calls)
      | (Returned _, s1, calls) \<Rightarrow>
          (let (res, s2, calls') = transform_each env srv originalImagePath rest s1
           in (res, s2, calls @ calls')))"

definition upload_event ::
  "lambda_env \<Rightarrow> 's services \<Rightarrow> s3_event_record \<Rightarrow> 's
     \<Rightarrow> response option outcome \<times> 's \<times> call list" where
  "upload_event env srv created s =
     (let originalImagePath = object_key created
      in if \<not> startsWith originalImagePath ''sandbox/''
            \<and> list_ex (endsWith originalImagePath) SUPPORTED_EXTENSIONS
         then (let sizes = str_split CHR ''|'' (autoTransformImageSizes env);
                   formats = str_split CHR ''|'' (autoTransformImageFormats env)
               in transform_each env srv originalImagePath
                    (concat (map (\<lambda>size. map (\<lambda>format. size @ '',f='' @ format) formats)
                                 sizes)) s)
         else (Returned None, s, []))"

text \<open>
  The request branch.  \<^verbatim>\<open>pop()\<close> takes the last segment of the path and
  \<^verbatim>\<open>shift()\<close> drops the first; \<^verbatim>\<open>split\<close> never returns an empty array, so the
  first case of the innermost distinction is never taken.
\<close>

definition on_the_fly ::
  "lambda_env \<Rightarrow> 's services \<Rightarrow> event \<Rightarrow> 's \<Rightarrow> response option outcome \<times> 's \<times> call list" where
  "on_the_fly env srv event s =
     (case event_headers event of
        None \<Rightarrow> (Thrown, s, [])
      | Some hs \<Rightarrow>
          (if \<not> truthy (hs ''x-origin-secret-header'')
              \<or> \<not> (hs ''x-origin-secret-header'' = Some (secretKey env))
           then (Returned (Some (sendError 403 ''Request unauthorized'')), s, [])
           else
             (case (case requestContext event of None \<Rightarrow> None | Some c \<Rightarrow> http c) of
                None \<Rightarrow> (Returned (Some (sendError 400 ''Only GET method is supported'')), s, [])
              | Some h \<Rightarrow>
                  (if \<not> (http_method h = ''GET'')
                   then (Returned (Some (sendError 400 ''Only GET method is supported'')), s, [])
                   else
                     (case rev (str_split CHR ''/'' (http_path h)) of
                        [] \<Rightarrow> (Thrown, s, [])
                      | operationsPrefix # reversed \<Rightarrow>
                          (let imagePathArray = drop 1 (rev reversed);
                               originalImagePath =
                                 str_replace (join ''/'' imagePathArray)
                                   (TRANSFORMED_FOLDER_PREFIX @ ''/'') '''';
                               (res, s', calls) =
                                 transformImage env srv originalImagePath operationsPrefix s
                           in (case res of
                                 Thrown \<Rightarrow> (Thrown, s', calls)
                               | Returned r \<Rightarrow> (Returned (Some r), s', calls))))))))"

text \<open>
  \<^verbatim>\<open>event.Records[0]\<close> of an empty array is \<^verbatim>\<open>undefined\<close>, and reading its
  \<^verbatim>\<open>eventName\<close> throws.
\<close>

definition image_processing_handler ::
  "lambda_env \<Rightarrow> 's services \<Rightarrow> event \<Rightarrow> 's \<Rightarrow> response option outcome \<times> 's \<times> call list" where
  "image_processing_handler env srv event s =
     (case Records event of
        None \<Rightarrow> on_the_fly env srv event s
      | Some [] \<Rightarrow> (Thrown, s, [])
      | Some (created # _) \<Rightarrow>
          (if str_includes (eventName created) ''ObjectCreated''
           then upload_event env srv created s
           else on_the_fly env srv event s))"

subsection \<open>The variant of \<^verbatim>\<open>transformImage\<close> written against \<^verbatim>\<open>@aws-sdk/client-s3\<close>\<close>

text \<open>
  The same file holds a second \<^verbatim>\<open>transformImage\<close> (after the one above), which knows
  \<^verbatim>\<open>w\<close> and \<^verbatim>\<open>h\<close> only.  Its \<^verbatim>\<open>try\<close> block, up to the call of
  \<^verbatim>\<open>toBuffer\<close>, is modelled here; the formatting part is the one above.
\<close>

definition resizingOptions_client_s3 :: "(string \<Rightarrow> string option) \<Rightarrow> resizing_options" where
  "resizingOptions_client_s3 operationsJSON =
     (let imageTransformWidth = parseInt_arg (operationsJSON ''w'');
          imageTransformHeight = parseInt_arg (operationsJSON ''h'');
          r0 = \<lparr>width = None, height = None, fit = None\<rparr>;
          r1 = (if truthy (operationsJSON ''w'') then r0\<lparr>width := Some imageTransformWidth\<rparr> else r0);
          r2 = (if truthy (operationsJSON ''h'') then r1\<lparr>height := Some imageTransformHeight\<rparr> else r1)
      in r2)"

definition resize_calls_client_s3 ::
  "lambda_env \<Rightarrow> (string \<Rightarrow> string option) \<Rightarrow> image_metadata \<Rightarrow> sharp_call list option" where
  "resize_calls_client_s3 env operationsJSON imageMetadata =
     (if \<not> truthy (operationsJSON ''org'') then
        (if allowTransformImageWidths env \<noteq> '''' \<and> allowTransformImageHeights env \<noteq> ''''
         then None
         else Some ([Resize (resizingOptions_client_s3 operationsJSON)] @
                    (if truthy_orientation (orientation imageMetadata) then [Rotate] else [])))
      else Some [])"

definition transform_calls_client_s3 ::
  "lambda_env \<Rightarrow> (string \<Rightarrow> string option) \<Rightarrow> image_metadata \<Rightarrow> string
     \<Rightarrow> (sharp_call list \<times> string) option" where
  "transform_calls_client_s3 env operationsJSON imageMetadata contentType =
     (case resize_calls_client_s3 env operationsJSON imageMetadata of
        None \<Rightarrow> None
      | Some resizing \<Rightarrow>
          (let (formatting, contentType') = format_calls operationsJSON contentType
           in Some (resizing @ formatting, contentType')))"

section \<open>The edge function: \<^verbatim>\<open>functions/url-rewrite/index.js\<close>\<close>

text \<open>
  A request as the edge hands it over.  The query string is an object from parameter names
  to values: a list of pairs in the order \<^verbatim>\<open>Object.keys\<close> enumerates them, with
  distinct names.  Headers and cookies map a lower-case name to its value.
\<close>

record cf_request =
  uri :: string
  querystring :: "(string \<times> string) list option"
  request_headers :: "string \<Rightarrow> string option"
  cookies :: "string \<Rightarrow> string option"

definition SUPPORTED_FORMATS :: "string list" where
  "SUPPORTED_FORMATS = [''auto'', ''jpg'', ''jpeg'', ''webp'', ''avif'', ''png'']"

text \<open>
  \<^verbatim>\<open>normalizedOperations\<close> is an object that starts empty: a list of pairs, a property
  assignment being \<open>AList.update\<close>.
\<close>

type_synonym operations = "(string \<times> string) list"

text \<open>
  Every case of the \<^verbatim>\<open>switch\<close> tests the parameter's value and, when the test
  passes, assigns one property of \<^verbatim>\<open>normalizedOperations\<close>.  The value assigned
  (\<open>None\<close>: the test fails and nothing is assigned) is computed first; the cases
  \<^verbatim>\<open>w\<close>, \<^verbatim>\<open>h\<close>, \<^verbatim>\<open>mw\<close> and \<^verbatim>\<open>mh\<close> share \<open>positive_value\<close>.
\<close>

definition positive_value :: "string \<Rightarrow> string option" where
  "positive_value v =
     (if v \<noteq> [] then
        (case parseInt v of
           NaN \<Rightarrow> None
         | Num n \<Rightarrow> if 0 < n then Some (int_toString n) else None)
      else None)"

definition quality_value :: "string \<Rightarrow> string option" where
  "quality_value v =
     (if v \<noteq> [] then
        (case parseInt v of
           NaN \<Rightarrow> None
         | Num n \<Rightarrow> if 0 < n then Some (int_toString (if 100 < n then 100 else n)) else None)
      else None)"

definition auto_format :: "(string \<Rightarrow> string option) \<Rightarrow> string" where
  "auto_format hs =
     (case hs ''accept'' of
        None \<Rightarrow> ''jpeg''
      | Some accept \<Rightarrow>
          if str_includes accept ''avif'' then ''avif''
          else if str_includes accept ''webp'' then ''webp''
          else ''jpeg'')"

definition format_value ::
  "string list \<Rightarrow> (string \<Rightarrow> string option) \<Rightarrow> string \<Rightarrow> string option" where
  "format_value supported hs v =
     (if v \<noteq> [] \<and> toLowerCase v \<in> set supported then
        (let format = toLowerCase v
         in Some (if format = ''auto'' then auto_format hs else format))
      else None)"

definition assign :: "string \<Rightarrow> string option \<Rightarrow> operations \<Rightarrow> operations" where
  "assign property val ops =
     (case val of
        None \<Rightarrow> ops
      | Some x \<Rightarrow> AList.update property x ops)"

text \<open>The body of the \<^verbatim>\<open>forEach\<close>: one query parameter.\<close>

definition normalize_operation ::
  "(string \<Rightarrow> string option) \<Rightarrow> string \<times> string \<Rightarrow> operations \<Rightarrow> operations" where
  "normalize_operation hs = (\<lambda>(operation, v) ops.
     (let name = toLowerCase operation
      in if name = ''f'' then assign ''f'' (format_value SUPPORTED_FORMATS hs v) ops
         else if name = ''w'' then assign ''w'' (positive_value v) ops
         else if name = ''h'' then assign ''h'' (positive_value v) ops
         else if name = ''mw'' then assign ''mw'' (positive_value v) ops
         else if name = ''mh'' then assign ''mh'' (positive_value v) ops
         else if name = ''q'' then assign ''q'' (quality_value v) ops
         else ops))"

text \<open>
  What the parameter with the lower-case name \<open>name\<close> and the value \<open>v\<close> contributes:
  the value stored under \<open>name\<close>, if any.  It is used to state and prove properties of
  \<open>normalize_operation\<close>, which is shown to assign exactly this.
\<close>

definition normalized_parameter ::
  "(string \<Rightarrow> string option) \<Rightarrow> string \<Rightarrow> string \<Rightarrow> string option" where
  "normalized_parameter hs name v =
     (if name = ''f'' then format_value SUPPORTED_FORMATS hs v
      else if name \<in> {''w'', ''h'', ''mw'', ''mh''} then positive_value v
      else if name = ''q'' then quality_value v
      else None)"

definition normalizedOperations_of ::
  "(string \<Rightarrow> string option) \<Rightarrow> (string \<times> string) list \<Rightarrow> operations" where
  "normalizedOperations_of hs qs = fold (normalize_operation hs) qs []"

text \<open>
  \<^verbatim>\<open>if (normalizedOperations.p) normalizedOperationsArray.push('l=' + normalizedOperations.p)\<close>
  for a property \<open>p\<close> and a label \<open>l\<close>.
\<close>

definition pushed :: "operations \<Rightarrow> string \<Rightarrow> string \<Rightarrow> string list" where
  "pushed ops property label =
     (case map_of ops property of
        None \<Rightarrow> []
      | Some v \<Rightarrow> if v \<noteq> [] then [label @ ''='' @ v] else [])"

definition normalizedOperationsArray :: "operations \<Rightarrow> string list" where
  "normalizedOperationsArray ops =
     pushed ops ''f'' ''f'' @ pushed ops ''q'' ''q'' @ pushed ops ''w'' ''w'' @ pushed ops ''h'' ''h''
       @ pushed ops ''mw'' ''mw'' @ pushed ops ''mh'' ''mh''"

definition isTransformSupported :: "string \<Rightarrow> bool" where
  "isTransformSupported originalImagePath =
     list_ex (endsWith originalImagePath) SUPPORTED_EXTENSIONS"

text \<open>The rewritten path before the folder prefix is put in front.\<close>

definition normalized_uri :: "cf_request \<Rightarrow> string" where
  "normalized_uri request =
     (let originalImagePath = uri request
      in case querystring request of
           None \<Rightarrow> originalImagePath @ ''/original''
         | Some qs \<Rightarrow>
             (let normalizedOperations = normalizedOperations_of (request_headers request) qs
              in if normalizedOperations \<noteq> []
                 then originalImagePath @ ''/'' @ join '','' (normalizedOperationsArray normalizedOperations)
                 else originalImagePath @ ''/original''))"

text \<open>
  The last statement reads \<^verbatim>\<open>request.cookies.crafterSite.value\<close>: without that cookie
  it reads a property of \<^verbatim>\<open>undefined\<close> and throws.
\<close>

definition url_rewrite_handler :: "cf_request \<Rightarrow> cf_request outcome" where
  "url_rewrite_handler request =
     (let request1 =
            (if isTransformSupported (uri request)
             then request\<lparr>uri := ''/'' @ TRANSFORMED_FOLDER_PREFIX @ normalized_uri request,
                          querystring := Some []\<rparr>
             else request)
      in case cookies request1 ''crafterSite'' of
           None \<Rightarrow> Thrown
         | Some site \<Rightarrow>
             Returned (if site \<noteq> [] then request1\<lparr>uri := ''/'' @ site @ uri request1\<rparr>
                       else request1))"

subsection \<open>The other edge function, at the end of \<^verbatim>\<open>image-processing/index.js\<close>\<close>

text \<open>
  A second \<^verbatim>\<open>handler(event)\<close> over a request stands at the end of the file of the
  image-processing function.  It stores the format under \<^verbatim>\<open>format\<close> and the numbers under \<^verbatim>\<open>w\<close>,
  \<^verbatim>\<open>h\<close> and \<^verbatim>\<open>q\<close>, then reads \<^verbatim>\<open>format\<close>, \<^verbatim>\<open>quality\<close>,
  \<^verbatim>\<open>width\<close> and \<^verbatim>\<open>height\<close>; it has no check of the extension, no folder
  prefix and no cookie.
\<close>

definition SUPPORTED_FORMATS_alt :: "string list" where
  "SUPPORTED_FORMATS_alt = [''auto'', ''jpeg'', ''webp'', ''avif'', ''png'', ''svg'', ''gif'']"

definition normalize_operation_alt ::
  "(string \<Rightarrow> string option) \<Rightarrow> string \<times> string \<Rightarrow> operations \<Rightarrow> operations" where
  "normalize_operation_alt hs = (\<lambda>(operation, v) ops.
     (let name = toLowerCase operation
      in if name = ''f'' then assign ''format'' (format_value SUPPORTED_FORMATS_alt hs v) ops
         else if name = ''w'' then assign ''w'' (positive_value v) ops
         else if name = ''h'' then assign ''h'' (positive_value v) ops
         else if name = ''q'' then assign ''q'' (quality_value v) ops
         else ops))"

definition normalizedOperationsArray_alt :: "operations \<Rightarrow> string list" where
  "normalizedOperationsArray_alt ops =
     pushed ops ''format'' ''f'' @ pushed ops ''quality'' ''q'' @ pushed ops ''width'' ''w''
       @ pushed ops ''height'' ''h''"

definition url_rewrite_handler_alt :: "cf_request \<Rightarrow> cf_request" where
  "url_rewrite_handler_alt request =
     (let originalImagePath = uri request;
          rewritten =
            (case querystring request of
               None \<Rightarrow> originalImagePath @ ''/''
             | Some qs \<Rightarrow>
                 (let normalizedOperations =
                        fold (normalize_operation_alt (request_headers request)) qs []
                  in if normalizedOperations \<noteq> []
                     then originalImagePath @ ''/''
                            @ join '','' (normalizedOperationsArray_alt normalizedOperations)
                     else originalImagePath @ ''/''))
      in request\<lparr>uri := rewritten, querystring := Some []\<rparr>)"

subsection \<open>Concrete instances\<close>

text \<open>
  An environment with a ceiling of four bytes, and services over a store without state:
  the download returns a three-byte JPEG of 800 by 600 pixels, the codec returns \<open>out\<close>,
  and the upload succeeds exactly when \<open>uploaded\<close> holds.
\<close>

definition example_env :: lambda_env where
  "example_env =
     \<lparr>originalImageBucketName = ''original-images'',
      transformedImageBucketName = ''transformed-images'',
      transformedImageCacheTTL = ''max-age=31622400'',
      autoTransformImageSizes = ''org'',
      autoTransformImageFormats = ''org'',
      allowTransformImageWidths = '''',
      allowTransformImageHeights = '''',
      secretKey = ''0123abcd'',
      maxImageSize = ''4''\<rparr>"

definition example_services :: "bool \<Rightarrow> bytes \<Rightarrow> unit services" where
  "example_services uploaded out =
     \<lparr>S3_getObject = (\<lambda>_ s. (Some \<lparr>object_Body = [1, 2, 3], object_ContentType = ''image/jpeg''\<rparr>, s)),
      S3_putObject = (\<lambda>_ s. (uploaded, s)),
      Sharp_metadata = (\<lambda>_. Some \<lparr>image_width = 800, image_height = 600, orientation = None\<rparr>),
      Sharp_toBuffer = (\<lambda>_ _. Some out)\<rparr>"

definition example_request :: "string option \<Rightarrow> string \<Rightarrow> event" where
  "example_request secret path =
     \<lparr>Records = None,
      event_headers = Some ((\<lambda>_. None)(''x-origin-secret-header'' := secret)),
      requestContext = Some \<lparr>http = Some \<lparr>http_method = ''GET'', http_path = path\<rparr>\<rparr>\<rparr>"

definition example_cf_request :: "string \<Rightarrow> (string \<times> string) list \<Rightarrow> string option \<Rightarrow> cf_request" where
  "example_cf_request path qs accept =
     \<lparr>uri = path, querystring = Some qs,
      request_headers = (\<lambda>_. None)(''accept'' := accept),
      cookies = (\<lambda>_. None)(''crafterSite'' := Some ''site'')\<rparr>"

section \<open>Properties of the image-processing function\<close>

lemmas parseInt_simps =
  parseInt_def isWhiteSpace_def is_digit_def digit_value_def digits_value_def

lemmas transform_calls_simps =
  transform_calls_def resize_calls_def format_calls_def format_switch_def operationsJSON_of_def
  fromEntries_def entry_def resizingOptions_def truthy_orientation_def js_or_def

lemma str_split_not_Nil: "str_split sep s \<noteq> []"
  by (induction s) (auto split: list.splits)

lemma example_fetch:
  "fetch_and_transform example_env (example_services uploaded out) ''sample/1.jpg'' ''f=webp,w=400'' () =
     (Inr (out, ''image/webp''), (),
      [GetObject \<lparr>get_Bucket = ''original-images'', get_Key = ''sample/1.jpg''\<rparr>,
       Metadata [1, 2, 3],
       ToBuffer [1, 2, 3]
         [Resize \<lparr>width = Some (Num 400), height = None, fit = None\<rparr>, ToFormat ''webp'' None]])"
  by (simp add: fetch_and_transform_def example_env_def example_services_def
      transform_calls_simps parseInt_simps Let_def)

lemma example_ceiling: "MAX_IMAGE_SIZE example_env = Num 4"
  by code_simp

text \<open>
  An authorized \<^verbatim>\<open>GET\<close> request is answered by \<^verbatim>\<open>transformImage\<close> on the two
  parts of its path.
\<close>

lemma authorized_get_request:
  assumes "Records event = None"
    and "event_headers event = Some hs"
    and "hs ''x-origin-secret-header'' = Some (secretKey env)" and "secretKey env \<noteq> []"
    and "requestContext event = Some c" and "http c = Some h" and "http_method h = ''GET''"
    and "rev (str_split CHR ''/'' (http_path h)) = operationsPrefix # reversed"
  shows "image_processing_handler env srv event s =
           (case transformImage env srv
                   (str_replace (join ''/'' (drop 1 (rev reversed))) ''transformed/'' [])
                   operationsPrefix s of
              (res, s', calls) \<Rightarrow> (map_outcome Some res, s', calls))"
  using assms
  by (simp add: image_processing_handler_def on_the_fly_def TRANSFORMED_FOLDER_PREFIX_def
      split: prod.splits outcome.splits)

text \<open>
  C1.  A request (an event without \<^verbatim>\<open>Records\<close>) whose secret header is missing or is
  not the configured secret is answered with 403 \<^verbatim>\<open>Request unauthorized\<close>; the store
  is left as it was and neither the store nor the codec is called.
\<close>

theorem unauthorized_request_rejected:
  assumes "Records event = None"
    and "event_headers event = Some hs"
    and "hs ''x-origin-secret-header'' = None
           \<or> hs ''x-origin-secret-header'' \<noteq> Some (secretKey env)"
  shows "image_processing_handler env srv event s =
           (Returned (Some \<lparr>statusCode = 403, body = Some ''Request unauthorized'',
                             isBase64Encoded = None, headers = None\<rparr>), s, [])"
  using assms by (auto simp: image_processing_handler_def on_the_fly_def sendError_def)

theorem unauthorized_request_rejected_witness:
  "image_processing_handler example_env (example_services True [1, 2, 3])
     (example_request (Some ''guess'') ''/sample/1.jpg/w=100'') () =
   (Returned (Some \<lparr>statusCode = 403, body = Some ''Request unauthorized'',
                     isBase64Encoded = None, headers = None\<rparr>), (), [])
   \<and> image_processing_handler example_env (example_services True [1, 2, 3])
     (example_request None ''/sample/1.jpg/w=100'') () =
   (Returned (Some \<lparr>statusCode = 403, body = Some ''Request unauthorized'',
                     isBase64Encoded = None, headers = None\<rparr>), (), [])"
  using unauthorized_request_rejected
      [where event = "example_request (Some ''guess'') ''/sample/1.jpg/w=100''"
         and hs = "(\<lambda>_. None)(''x-origin-secret-header'' := Some ''guess'')"
         and env = example_env and srv = "example_services True [1, 2, 3]" and s = "()"]
    unauthorized_request_rejected
      [where event = "example_request None ''/sample/1.jpg/w=100''"
         and hs = "(\<lambda>_. None)(''x-origin-secret-header'' := None)"
         and env = example_env and srv = "example_services True [1, 2, 3]" and s = "()"]
  by (simp add: example_request_def example_env_def)

text \<open>
  C2.  When the transformed image is longer than \<^verbatim>\<open>MAX_IMAGE_SIZE\<close> and the upload
  succeeds, \<^verbatim>\<open>transformImage\<close> returns a 302 whose \<^verbatim>\<open>Location\<close> is \<^verbatim>\<open>/\<close>, the
  original image path, \<^verbatim>\<open>?\<close> and the operations with every comma replaced by
  \<^verbatim>\<open>&\<close>.
\<close>

theorem oversize_redirect_location:
  assumes "fetch_and_transform env srv originalImagePath operationsPrefix s =
             (Inr (transformedImage, contentType), s1, calls)"
    and "MAX_IMAGE_SIZE env = Num m"
    and "m < int (length transformedImage)"
    and "S3_putObject srv
           (upload_request env originalImagePath operationsPrefix transformedImage contentType) s1 =
             (True, s2)"
  shows "fst (transformImage env srv originalImagePath operationsPrefix s) =
           Returned \<lparr>statusCode = 302, body = None, isBase64Encoded = None,
             headers = Some [(''Location'',
                               ''/'' @ originalImagePath @ ''?''
                                 @ map (\<lambda>c. if c = CHR '','' then CHR ''&'' else c) operationsPrefix),
                             (''Cache-Control'', ''private,no-store'')]\<rparr>"
  using assms
  by (simp add: transformImage_def upload_and_respond_def imageTooBig_def redirect_response_def
      replace_commas_def)

theorem oversize_redirect_location_witness:
  "fst (transformImage example_env (example_services True [1, 2, 3, 4, 5]) ''sample/1.jpg''
          ''f=webp,w=400'' ()) =
     Returned \<lparr>statusCode = 302, body = None, isBase64Encoded = None,
       headers = Some [(''Location'', ''/sample/1.jpg?f=webp&w=400''),
                       (''Cache-Control'', ''private,no-store'')]\<rparr>"
  using oversize_redirect_location
      [where env = example_env and srv = "example_services True [1, 2, 3, 4, 5]"
         and originalImagePath = "''sample/1.jpg''" and operationsPrefix = "''f=webp,w=400''"
         and s = "()" and ?s1.0 = "()" and ?s2.0 = "()" and m = 4
         and transformedImage = "[1, 2, 3, 4, 5]" and contentType = "''image/webp''",
       OF example_fetch example_ceiling]
  by (simp add: example_services_def)

text \<open>
  C3.  When the transformed image is longer than \<^verbatim>\<open>MAX_IMAGE_SIZE\<close> and the upload
  throws, \<^verbatim>\<open>transformImage\<close> returns 403 \<^verbatim>\<open>Requested transformed image is too big\<close>:
  neither a 302 nor a 200 with the image in its body.
\<close>

theorem oversize_upload_failure_is_403:
  assumes "fetch_and_transform env srv originalImagePath operationsPrefix s =
             (Inr (transformedImage, contentType), s1, calls)"
    and "MAX_IMAGE_SIZE env = Num m"
    and "m < int (length transformedImage)"
    and "S3_putObject srv
           (upload_request env originalImagePath operationsPrefix transformedImage contentType) s1 =
             (False, s2)"
  shows "fst (transformImage env srv originalImagePath operationsPrefix s) =
           Returned \<lparr>statusCode = 403, body = Some ''Requested transformed image is too big'',
                      isBase64Encoded = None, headers = None\<rparr>"
  using assms
  by (simp add: transformImage_def upload_and_respond_def imageTooBig_def sendError_def)

theorem oversize_upload_failure_is_403_witness:
  "fst (transformImage example_env (example_services False [1, 2, 3, 4, 5]) ''sample/1.jpg''
          ''f=webp,w=400'' ()) =
     Returned \<lparr>statusCode = 403, body = Some ''Requested transformed image is too big'',
                isBase64Encoded = None, headers = None\<rparr>"
  using oversize_upload_failure_is_403
      [where env = example_env and srv = "example_services False [1, 2, 3, 4, 5]"
         and originalImagePath = "''sample/1.jpg''" and operationsPrefix = "''f=webp,w=400''"
         and s = "()" and ?s1.0 = "()" and ?s2.0 = "()" and m = 4
         and transformedImage = "[1, 2, 3, 4, 5]" and contentType = "''image/webp''",
       OF example_fetch example_ceiling]
  by (simp add: example_services_def)

text \<open>
  C4.  When the transformed image is not longer than \<^verbatim>\<open>MAX_IMAGE_SIZE\<close>, a failed
  upload changes nothing in the response: \<^verbatim>\<open>transformImage\<close> returns 200 with the
  transformed bytes in base64, the content type the transformation resolved and the
  configured \<^verbatim>\<open>Cache-Control\<close>, the response it also gives when the upload succeeds.
\<close>

theorem upload_failure_keeps_response:
  assumes "fetch_and_transform env srv originalImagePath operationsPrefix s =
             (Inr (transformedImage, contentType), s1, calls)"
    and "MAX_IMAGE_SIZE env = Num m"
    and "int (length transformedImage) \<le> m"
    and "S3_putObject srv
           (upload_request env originalImagePath operationsPrefix transformedImage contentType) s1 =
             (uploaded, s2)"
  shows "fst (transformImage env srv originalImagePath operationsPrefix s) =
           Returned \<lparr>statusCode = 200, body = Some (base64 transformedImage),
                      isBase64Encoded = Some True,
                      headers = Some [(''Content-Type'', contentType),
                                      (''Cache-Control'', transformedImageCacheTTL env)]\<rparr>"
  using assms
  by (simp add: transformImage_def upload_and_respond_def imageTooBig_def image_response_def)

theorem upload_failure_keeps_response_witness:
  "fst (transformImage example_env (example_services False [1, 2, 3, 4]) ''sample/1.jpg''
          ''f=webp,w=400'' ()) =
     Returned \<lparr>statusCode = 200, body = Some ''AQIDBA=='', isBase64Encoded = Some True,
                headers = Some [(''Content-Type'', ''image/webp''),
                                (''Cache-Control'', ''max-age=31622400'')]\<rparr>"
  using upload_failure_keeps_response
      [where env = example_env and srv = "example_services False [1, 2, 3, 4]"
         and originalImagePath = "''sample/1.jpg''" and operationsPrefix = "''f=webp,w=400''"
         and s = "()" and ?s1.0 = "()" and ?s2.0 = "()" and m = 4 and uploaded = False
         and transformedImage = "[1, 2, 3, 4]" and contentType = "''image/webp''",
       OF example_fetch example_ceiling]
  by (simp add: example_services_def example_env_def base64_def base64_char_def base64_alphabet_def)

subsection \<open>The resize target\<close>

lemma clamped_to_intrinsic: "\<exists>n. Math_min (js_or a (Num i)) (Num i) = Num n \<and> n \<le> i"
  by (cases a) (simp_all add: js_or_def)

lemma resizingOptions_width:
  assumes "width (resizingOptions operationsJSON imageMetadata) = Some x"
  shows "\<exists>n. x = Num n \<and> n \<le> image_width imageMetadata"
proof -
  let ?w = "Num (image_width imageMetadata)"
  from assms have "x = Math_min (js_or (parseInt_arg (operationsJSON ''w'')) ?w) ?w
      \<or> x = Math_min (js_or (parseInt_arg (operationsJSON ''mw'')) ?w) ?w"
    by (auto simp: resizingOptions_def Let_def split: if_splits)
  then show ?thesis
    using clamped_to_intrinsic [of _ "image_width imageMetadata"] by metis
qed

lemma resizingOptions_height:
  assumes "height (resizingOptions operationsJSON imageMetadata) = Some y"
  shows "\<exists>n. y = Num n \<and> n \<le> image_height imageMetadata"
proof -
  let ?h = "Num (image_height imageMetadata)"
  from assms have "y = Math_min (js_or (parseInt_arg (operationsJSON ''h'')) ?h) ?h
      \<or> y = Math_min (js_or (parseInt_arg (operationsJSON ''mh'')) ?h) ?h"
    by (auto simp: resizingOptions_def Let_def split: if_splits)
  then show ?thesis
    using clamped_to_intrinsic [of _ "image_height imageMetadata"] by metis
qed

text \<open>A requested width above the intrinsic one gives the intrinsic one.\<close>

lemma requested_width_above_intrinsic:
  assumes "operationsJSON ''w'' = Some v" and "parseInt v = Num n"
    and "image_width imageMetadata < n" and "0 < image_width imageMetadata"
    and "\<not> truthy (operationsJSON ''mw'')"
  shows "width (resizingOptions operationsJSON imageMetadata) =
           Some (Num (image_width imageMetadata))"
proof -
  from assms(2) have "v \<noteq> []" by (auto simp: parseInt_simps)
  with assms show ?thesis
    by (simp add: resizingOptions_def Let_def js_or_def)
qed

lemma Resize_in_transform_calls:
  assumes "transform_calls env operationsJSON imageMetadata contentType = Some (chain, contentType')"
    and "Resize options \<in> set chain"
  shows "options = resizingOptions operationsJSON imageMetadata"
  using assms
  by (auto simp: transform_calls_def resize_calls_def format_calls_def Let_def
      split: option.splits if_splits prod.splits)

lemma ToBuffer_in_transformImage:
  assumes "ToBuffer input chain
             \<in> set (snd (snd (transformImage env srv originalImagePath operationsPrefix s)))"
  shows "\<exists>imageMetadata contentType contentType'.
           Sharp_metadata srv input = Some imageMetadata
           \<and> transform_calls env (operationsJSON_of operationsPrefix) imageMetadata contentType =
               Some (chain, contentType')"
  using assms
  by (auto simp: transformImage_def fetch_and_transform_def upload_and_respond_def Let_def
      split: option.splits if_splits prod.splits sum.splits)

lemma example_calls_w_9999:
  "snd (snd (transformImage example_env (example_services True [1, 2, 3]) ''sample/1.jpg''
               ''w=9999'' ())) =
     [GetObject \<lparr>get_Bucket = ''original-images'', get_Key = ''sample/1.jpg''\<rparr>,
      Metadata [1, 2, 3],
      ToBuffer [1, 2, 3] [Resize \<lparr>width = Some (Num 800), height = None, fit = None\<rparr>],
      PutObject \<lparr>put_Body = [1, 2, 3], put_Bucket = ''transformed-images'',
                 put_Key = ''sample/1.jpg/w=9999'', put_ContentType = ''image/jpeg'',
                 put_Metadata = [(''cache-control'', ''max-age=31622400'')]\<rparr>]"
  by code_simp

text \<open>
  No upscaling in the \<^verbatim>\<open>transformImage\<close> modelled above, which knows \<^verbatim>\<open>w\<close>,
  \<^verbatim>\<open>h\<close>, \<^verbatim>\<open>mw\<close> and \<^verbatim>\<open>mh\<close>: every resize the codec is asked for has a
  width and a height that are numbers not above the width and the height the codec
  reported for that image; \<^verbatim>\<open>w=9999\<close> on an original 800 wide asks for 800.
\<close>

theorem resize_target_within_intrinsic:
  assumes "ToBuffer input chain
             \<in> set (snd (snd (transformImage env srv originalImagePath operationsPrefix s)))"
    and "Resize options \<in> set chain"
  shows "\<exists>imageMetadata. Sharp_metadata srv input = Some imageMetadata
           \<and> (\<forall>x. width options = Some x \<longrightarrow> (\<exists>n. x = Num n \<and> n \<le> image_width imageMetadata))
           \<and> (\<forall>y. height options = Some y \<longrightarrow> (\<exists>n. y = Num n \<and> n \<le> image_height imageMetadata))"
proof -
  from ToBuffer_in_transformImage [OF assms(1)] obtain imageMetadata contentType contentType'
    where m: "Sharp_metadata srv input = Some imageMetadata"
      and c: "transform_calls env (operationsJSON_of operationsPrefix) imageMetadata contentType =
                Some (chain, contentType')"
    by blast
  from Resize_in_transform_calls [OF c assms(2)]
  have "options = resizingOptions (operationsJSON_of operationsPrefix) imageMetadata" .
  with m show ?thesis
    using resizingOptions_width resizingOptions_height by blast
qed

theorem resize_target_within_intrinsic_witness:
  "ToBuffer [1, 2, 3] [Resize \<lparr>width = Some (Num 800), height = None, fit = None\<rparr>]
     \<in> set (snd (snd (transformImage example_env (example_services True [1, 2, 3])
                         ''sample/1.jpg'' ''w=9999'' ())))
   \<and> (\<exists>imageMetadata.
         Sharp_metadata (example_services True [1, 2, 3]) [1, 2, 3] = Some imageMetadata
         \<and> (\<exists>n. Num 800 = Num n \<and> n \<le> image_width imageMetadata))"
proof -
  have a: "ToBuffer [1, 2, 3] [Resize \<lparr>width = Some (Num 800), height = None, fit = None\<rparr>]
     \<in> set (snd (snd (transformImage example_env (example_services True [1, 2, 3])
                         ''sample/1.jpg'' ''w=9999'' ())))"
    by (simp add: example_calls_w_9999)
  have b: "Resize \<lparr>width = Some (Num 800), height = None, fit = None\<rparr>
             \<in> set [Resize \<lparr>width = Some (Num 800), height = None, fit = None\<rparr>]"
    by simp
  from resize_target_within_intrinsic [OF a b] a show ?thesis by simp
qed

text \<open>
  C5.  A requested width above the intrinsic one must reach the codec as the intrinsic
  one.  The second \<^verbatim>\<open>transformImage\<close> of the file does not do what the first does:
  it hands the parsed width to the codec as it is, so \<^verbatim>\<open>w=9999\<close> on an original 800
  wide asks for 9999.
\<close>

theorem client_s3_resize_target_unclamped:
  "transform_calls_client_s3 example_env (operationsJSON_of ''w=9999'')
     \<lparr>image_width = 800, image_height = 600, orientation = None\<rparr> ''image/jpeg'' =
   Some ([Resize \<lparr>width = Some (Num 9999), height = None, fit = None\<rparr>], ''image/jpeg'')"
  by code_simp

subsection \<open>Quality\<close>

text \<open>
  The formatting part reads the quality under the key \<^verbatim>\<open>quality\<close>: with such an entry
  it is handed to the codec exactly for the formats other than \<^verbatim>\<open>gif\<close> and
  \<^verbatim>\<open>png\<close>, and without one the format is set with no option.
\<close>

lemma format_calls_quality:
  assumes "operationsJSON ''f'' = Some f" and "f \<noteq> []" and "f \<noteq> ''org''"
    and "truthy (operationsJSON ''quality'')"
  shows "fst (format_calls operationsJSON contentType) =
           [ToFormat f (if f = ''gif'' \<or> f = ''png'' then None
                        else Some (parseInt_arg (operationsJSON ''quality'')))]"
  using assms by (simp add: format_calls_def format_switch_def)

lemma format_calls_without_quality:
  assumes "operationsJSON ''f'' = Some f" and "f \<noteq> []" and "f \<noteq> ''org''"
    and "\<not> truthy (operationsJSON ''quality'')"
  shows "fst (format_calls operationsJSON contentType) = [ToFormat f None]"
  using assms by (simp add: format_calls_def format_switch_def split: prod.splits)

lemma quality_key_is_applied:
  "transform_calls example_env (operationsJSON_of ''f=jpeg,quality=50'')
     \<lparr>image_width = 800, image_height = 600, orientation = None\<rparr> ''image/png'' =
   Some ([Resize \<lparr>width = None, height = None, fit = None\<rparr>, ToFormat ''jpeg'' (Some (Num 50))],
         ''image/jpeg'')"
  by code_simp

text \<open>
  C6.  The edge function writes the quality as \<^verbatim>\<open>q=50\<close>, and
  \<^verbatim>\<open>transformImage\<close> looks for \<^verbatim>\<open>quality\<close>: for the request
  \<^verbatim>\<open>/sample/1.jpg?f=jpeg&q=50\<close> the codec is asked for \<^verbatim>\<open>toFormat('jpeg')\<close>
  without a quality, although the format is lossy.
\<close>

theorem quality_parameter_q_not_applied:
  "map_outcome uri (url_rewrite_handler
      (example_cf_request ''/sample/1.jpg'' [(''f'', ''jpeg''), (''q'', ''50'')] None)) =
     Returned ''/site/transformed/sample/1.jpg/f=jpeg,q=50''
   \<and> snd (snd (image_processing_handler example_env (example_services True [1, 2, 3])
        (example_request (Some ''0123abcd'') ''/site/transformed/sample/1.jpg/f=jpeg,q=50'') ())) =
     [GetObject \<lparr>get_Bucket = ''original-images'', get_Key = ''site/sample/1.jpg''\<rparr>,
      Metadata [1, 2, 3],
      ToBuffer [1, 2, 3]
        [Resize \<lparr>width = None, height = None, fit = None\<rparr>, ToFormat ''jpeg'' None],
      PutObject \<lparr>put_Body = [1, 2, 3], put_Bucket = ''transformed-images'',
                 put_Key = ''site/sample/1.jpg/f=jpeg,q=50'', put_ContentType = ''image/jpeg'',
                 put_Metadata = [(''cache-control'', ''max-age=31622400'')]\<rparr>]"
  by code_simp

subsection \<open>The key of the stored image\<close>

lemma str_replace_absent: "\<not> str_includes s pat \<Longrightarrow> str_replace s pat rep = s"
  by (induction s) auto

lemma shortenOperationsPrefix_tokens:
  "shortenOperationsPrefix ''org,f=org'' = ''original''"
  "shortenOperationsPrefix ''original'' = ''original''"
  by code_simp+

text \<open>
  C10, as amended.  The image is stored under the original image path, with its first
  \<^verbatim>\<open>/static-assets/\<close> replaced by \<^verbatim>\<open>/transformed/static-assets/\<close>, then
  \<^verbatim>\<open>/\<close> and the shortened operations, which are never empty.  The operations
  \<^verbatim>\<open>org,f=org\<close> and \<^verbatim>\<open>original\<close> both shorten to \<^verbatim>\<open>original\<close>, so they
  share a key; for a path without \<^verbatim>\<open>/static-assets/\<close> that key is the path followed
  by \<^verbatim>\<open>/original\<close>.
\<close>

theorem original_tokens_share_store_key:
  "put_Key (upload_request env originalImagePath operationsPrefix transformedImage contentType) =
     str_replace originalImagePath ''/static-assets/'' ''/transformed/static-assets/''
       @ ''/'' @ shortenOperationsPrefix operationsPrefix
   \<and> shortenOperationsPrefix operationsPrefix \<noteq> []
   \<and> shortenOperationsPrefix ''org,f=org'' = ''original''
   \<and> shortenOperationsPrefix ''original'' = ''original''
   \<and> (\<not> str_includes originalImagePath ''/static-assets/'' \<longrightarrow>
        put_Key (upload_request env originalImagePath ''org,f=org'' transformedImage contentType) =
          originalImagePath @ ''/original''
        \<and> put_Key (upload_request env originalImagePath ''original'' transformedImage contentType) =
          originalImagePath @ ''/original'')"
proof -
  have "shortenOperationsPrefix operationsPrefix \<noteq> []"
    by (simp add: shortenOperationsPrefix_def Let_def)
  then show ?thesis
    by (simp add: upload_request_def derived_key_def shortenOperationsPrefix_tokens
        TRANSFORMED_FOLDER_PREFIX_def str_replace_absent)
qed

theorem original_tokens_share_store_key_witness:
  "\<not> str_includes ''sample/1.jpg'' ''/static-assets/''
   \<and> put_Key (upload_request example_env ''sample/1.jpg'' ''org,f=org'' [1] ''image/jpeg'') =
       ''sample/1.jpg/original''
   \<and> put_Key (upload_request example_env ''sample/1.jpg'' ''original'' [1] ''image/jpeg'') =
       ''sample/1.jpg/original''"
proof -
  have a: "\<not> str_includes ''sample/1.jpg'' ''/static-assets/''" by code_simp
  from original_tokens_share_store_key
         [of example_env "''sample/1.jpg''" "''original''" "[1]" "''image/jpeg''"] a
  show ?thesis by simp
qed

text \<open>
  C10 as stated fails for a path below \<^verbatim>\<open>/static-assets/\<close>: the key is not the path
  followed by \<^verbatim>\<open>/original\<close>.
\<close>

theorem store_key_static_assets:
  "put_Key (upload_request example_env ''site/static-assets/a.jpg'' ''original'' [1] ''image/jpeg'') =
     ''site/transformed/static-assets/a.jpg/original''
   \<and> put_Key (upload_request example_env ''site/static-assets/a.jpg'' ''original'' [1] ''image/jpeg'')
       \<noteq> ''site/static-assets/a.jpg'' @ ''/original''"
  by code_simp

section \<open>Properties of the edge function\<close>

subsection \<open>One parameter, and all of them\<close>

lemma normalize_operation_assign:
  "normalize_operation hs (k, v) ops =
     assign (toLowerCase k) (normalized_parameter hs (toLowerCase k) v) ops"
proof -
  define name where "name = toLowerCase k"
  have "(let n = name
         in if n = ''f'' then assign ''f'' (format_value SUPPORTED_FORMATS hs v) ops
            else if n = ''w'' then assign ''w'' (positive_value v) ops
            else if n = ''h'' then assign ''h'' (positive_value v) ops
            else if n = ''mw'' then assign ''mw'' (positive_value v) ops
            else if n = ''mh'' then assign ''mh'' (positive_value v) ops
            else if n = ''q'' then assign ''q'' (quality_value v) ops
            else ops) =
        assign name (normalized_parameter hs name v) ops"
    by (auto simp: normalized_parameter_def assign_def Let_def)
  then show ?thesis
    by (simp add: normalize_operation_def name_def)
qed

lemma map_of_assign:
  "map_of (assign property val ops) name =
     (if name = property then (case val of None \<Rightarrow> map_of ops name | Some x \<Rightarrow> Some x)
      else map_of ops name)"
  by (simp add: assign_def update_conv' split: option.splits)

lemma assign_eq_Nil: "assign property val ops = [] \<longleftrightarrow> val = None \<and> ops = []"
  by (simp add: assign_def split: option.splits)

text \<open>A list of pairs in which equal names carry equal values is read like a set.\<close>

lemma map_of_single_valued:
  assumes "\<forall>(n, v) \<in> set xs. \<forall>(n', v') \<in> set xs. n = n' \<longrightarrow> v = v'"
  shows "map_of xs n = Some v \<longleftrightarrow> (n, v) \<in> set xs"
proof
  assume "map_of xs n = Some v"
  then show "(n, v) \<in> set xs" by (rule map_of_SomeD)
next
  assume in_xs: "(n, v) \<in> set xs"
  then have "n \<in> fst ` set xs" by force
  then have "map_of xs n \<noteq> None"
    by (simp add: map_of_eq_None_iff)
  then obtain v' where v': "map_of xs n = Some v'" by blast
  then have "(n, v') \<in> set xs" by (rule map_of_SomeD)
  with assms in_xs have "v' = v" by blast
  with v' show "map_of xs n = Some v" by simp
qed

lemma map_of_fold_normalize:
  assumes "\<forall>(k, v) \<in> set qs. \<forall>(k', v') \<in> set qs. toLowerCase k = toLowerCase k' \<longrightarrow> v = v'"
  shows "map_of (fold (normalize_operation hs) qs ops) name =
           (case map_of (map (\<lambda>(k, v). (toLowerCase k, v)) qs) name of
              None \<Rightarrow> map_of ops name
            | Some v \<Rightarrow>
                (case normalized_parameter hs name v of
                   None \<Rightarrow> map_of ops name
                 | Some x \<Rightarrow> Some x))"
  using assms
proof (induction qs arbitrary: ops)
  case Nil
  then show ?case by simp
next
  case (Cons p qs)
  obtain k v where p: "p = (k, v)" by (cases p)
  let ?L = "map (\<lambda>(k, v). (toLowerCase k, v)) qs"
  from Cons.prems have rest:
    "\<forall>(k, v) \<in> set qs. \<forall>(k', v') \<in> set qs. toLowerCase k = toLowerCase k' \<longrightarrow> v = v'"
    by auto
  have same: "map_of ?L (toLowerCase k) = None \<or> map_of ?L (toLowerCase k) = Some v"
  proof (cases "map_of ?L (toLowerCase k)")
    case None
    then show ?thesis by simp
  next
    case (Some v')
    then have "(toLowerCase k, v') \<in> set ?L" by (rule map_of_SomeD)
    then obtain k' where "(k', v') \<in> set qs" and "toLowerCase k' = toLowerCase k" by auto
    with Cons.prems p have "v' = v" by auto
    with Some show ?thesis by simp
  qed
  show ?case
    using same
    by (auto simp: p Cons.IH [OF rest] normalize_operation_assign map_of_assign
        split: option.splits)
qed

lemma same_parameters_same_map:
  assumes "\<forall>(k, v) \<in> set qs. \<forall>(k', v') \<in> set qs. toLowerCase k = toLowerCase k' \<longrightarrow> v = v'"
    and "set (map (\<lambda>(k, v). (toLowerCase k, v)) qs) = set (map (\<lambda>(k, v). (toLowerCase k, v)) qs')"
  shows "map_of (normalizedOperations_of hs qs) = map_of (normalizedOperations_of hs qs')"
proof -
  let ?L = "map (\<lambda>(k, v). (toLowerCase k, v))"
  from assms(1) have a: "\<forall>(n, v) \<in> set (?L qs). \<forall>(n', v') \<in> set (?L qs). n = n' \<longrightarrow> v = v'"
    by fastforce
  with assms(2) have b: "\<forall>(n, v) \<in> set (?L qs'). \<forall>(n', v') \<in> set (?L qs'). n = n' \<longrightarrow> v = v'"
    by simp
  then have b': "\<forall>(k, v) \<in> set qs'. \<forall>(k', v') \<in> set qs'. toLowerCase k = toLowerCase k' \<longrightarrow> v = v'"
    by fastforce
  have "map_of (?L qs) n = map_of (?L qs') n" for n
  proof (cases "map_of (?L qs) n")
    case None
    then have "n \<notin> fst ` set (?L qs)" by (simp add: map_of_eq_None_iff)
    with assms(2) have "n \<notin> fst ` set (?L qs')" by simp
    then have "map_of (?L qs') n = None" by (simp add: map_of_eq_None_iff)
    with None show ?thesis by simp
  next
    case (Some v)
    then have "(n, v) \<in> set (?L qs)" by (rule map_of_SomeD)
    with assms(2) have "(n, v) \<in> set (?L qs')" by simp
    with map_of_single_valued [OF b] have "map_of (?L qs') n = Some v" by blast
    with Some show ?thesis by simp
  qed
  then have "map_of (?L qs) = map_of (?L qs')" by (rule ext)
  then show ?thesis
    by (simp add: normalizedOperations_of_def fun_eq_iff map_of_fold_normalize [OF assms(1)]
        map_of_fold_normalize [OF b'])
qed

lemma normalized_uri_map_of:
  assumes "map_of (normalizedOperations_of (request_headers request) qs) =
           map_of (normalizedOperations_of (request_headers request) qs')"
  shows "normalized_uri (request\<lparr>querystring := Some qs\<rparr>) =
         normalized_uri (request\<lparr>querystring := Some qs'\<rparr>)"
proof -
  let ?a = "normalizedOperations_of (request_headers request) qs"
  let ?b = "normalizedOperations_of (request_headers request) qs'"
  from assms have "(?a = []) = (?b = [])"
    by (metis map_of_eq_empty_iff)
  moreover from assms have "normalizedOperationsArray ?a = normalizedOperationsArray ?b"
    by (simp add: normalizedOperationsArray_def pushed_def)
  ultimately show ?thesis
    by (simp add: normalized_uri_def Let_def)
qed

lemma label_of_field:
  "CHR ''='' \<notin> set l \<Longrightarrow> takeWhile (\<lambda>c. c \<noteq> CHR ''='') (l @ CHR ''='' # v) = l"
  by (induction l) auto

lemma segment_label:
  "CHR ''='' \<notin> set l \<Longrightarrow>
     map (takeWhile (\<lambda>c. c \<noteq> CHR ''='')) (pushed ops p l) = [] \<or>
     map (takeWhile (\<lambda>c. c \<noteq> CHR ''='')) (pushed ops p l) = [l]"
  by (auto simp: pushed_def label_of_field split: option.splits)

lemma subseq_segment: "a = [] \<or> a = [l] \<Longrightarrow> subseq xs ys \<Longrightarrow> subseq (a @ xs) (l # ys)"
  by auto

lemma subseq_pushed:
  assumes "CHR ''='' \<notin> set l" and "subseq xs ys"
  shows "subseq (map (takeWhile (\<lambda>c. c \<noteq> CHR ''='')) (pushed ops p l) @ xs) (l # ys)"
  using subseq_segment [OF segment_label [OF assms(1)] assms(2)] .

lemma fields_in_fixed_order:
  "subseq (map (takeWhile (\<lambda>c. c \<noteq> CHR ''='')) (normalizedOperationsArray ops))
     [''f'', ''q'', ''w'', ''h'', ''mw'', ''mh'']"
proof -
  have "subseq (map (takeWhile (\<lambda>c. c \<noteq> CHR ''='')) (pushed ops ''mw'' ''mw'' @ pushed ops ''mh'' ''mh''))
      [''mw'', ''mh'']"
    using subseq_pushed [where l = "''mw''", OF _ subseq_pushed [where l = "''mh''" and xs = "[]" and ys = "[]"]]
    by simp
  then have "subseq (map (takeWhile (\<lambda>c. c \<noteq> CHR ''=''))
      (pushed ops ''w'' ''w'' @ pushed ops ''h'' ''h'' @ pushed ops ''mw'' ''mw'' @ pushed ops ''mh'' ''mh''))
      [''w'', ''h'', ''mw'', ''mh'']"
    using subseq_pushed [where l = "''w''", OF _ subseq_pushed [where l = "''h''"]]
    by simp
  then have "subseq (map (takeWhile (\<lambda>c. c \<noteq> CHR ''=''))
      (pushed ops ''f'' ''f'' @ pushed ops ''q'' ''q'' @ pushed ops ''w'' ''w'' @ pushed ops ''h'' ''h''
         @ pushed ops ''mw'' ''mw'' @ pushed ops ''mh'' ''mh''))
      [''f'', ''q'', ''w'', ''h'', ''mw'', ''mh'']"
    using subseq_pushed [where l = "''f''", OF _ subseq_pushed [where l = "''q''"]]
    by simp
  then show ?thesis
    by (simp add: normalizedOperationsArray_def)
qed

text \<open>Without the cookie \<^verbatim>\<open>crafterSite\<close> the function throws, whatever the request.\<close>

lemma missing_cookie_throws:
  "cookies request ''crafterSite'' = None \<Longrightarrow> url_rewrite_handler request = Thrown"
  by (simp add: url_rewrite_handler_def Let_def)

subsection \<open>The order of the parameters\<close>

text \<open>
  C7, as amended.  The fields of the operation segment stand in the order \<^verbatim>\<open>f\<close>,
  \<^verbatim>\<open>q\<close>, \<^verbatim>\<open>w\<close>, \<^verbatim>\<open>h\<close>, \<^verbatim>\<open>mw\<close>, \<^verbatim>\<open>mh\<close>, whatever the
  order of the query parameters.  Two requests that differ only in their query strings,
  these holding the same parameters up to their order and the letter case of their names,
  are rewritten to the same URI, provided that parameters whose names are equal up to
  letter case carry the same value.
\<close>

theorem rewrite_independent_of_parameter_order:
  assumes "\<forall>(k, v) \<in> set qs. \<forall>(k', v') \<in> set qs. toLowerCase k = toLowerCase k' \<longrightarrow> v = v'"
    and "set (map (\<lambda>(k, v). (toLowerCase k, v)) qs) = set (map (\<lambda>(k, v). (toLowerCase k, v)) qs')"
  shows "map_outcome uri (url_rewrite_handler (request\<lparr>querystring := Some qs\<rparr>)) =
         map_outcome uri (url_rewrite_handler (request\<lparr>querystring := Some qs'\<rparr>))
         \<and> subseq (map (takeWhile (\<lambda>c. c \<noteq> CHR ''=''))
                     (normalizedOperationsArray (normalizedOperations_of (request_headers request) qs)))
             [''f'', ''q'', ''w'', ''h'', ''mw'', ''mh'']"
proof -
  from same_parameters_same_map [OF assms]
  have "normalized_uri (request\<lparr>querystring := Some qs\<rparr>) =
        normalized_uri (request\<lparr>querystring := Some qs'\<rparr>)"
    by (rule normalized_uri_map_of)
  then show ?thesis
    by (simp add: url_rewrite_handler_def Let_def fields_in_fixed_order split: option.splits)
qed

theorem rewrite_independent_of_parameter_order_witness:
  "map_outcome uri (url_rewrite_handler
      (example_cf_request ''/a.jpg''
         [(''H'', ''50''), (''q'', ''80''), (''F'', ''webp''), (''w'', ''100'')] None)) =
     Returned ''/site/transformed/a.jpg/f=webp,q=80,w=100,h=50''
   \<and> map_outcome uri (url_rewrite_handler
      (example_cf_request ''/a.jpg''
         [(''f'', ''webp''), (''W'', ''100''), (''h'', ''50''), (''Q'', ''80'')] None)) =
     Returned ''/site/transformed/a.jpg/f=webp,q=80,w=100,h=50''"
proof -
  let ?qs = "[(''H'', ''50''), (''q'', ''80''), (''F'', ''webp''), (''w'', ''100'')]"
  let ?qs' = "[(''f'', ''webp''), (''W'', ''100''), (''h'', ''50''), (''Q'', ''80'')]"
  have a: "\<forall>(k, v) \<in> set ?qs. \<forall>(k', v') \<in> set ?qs. toLowerCase k = toLowerCase k' \<longrightarrow> v = v'"
    by code_simp
  have b: "set (map (\<lambda>(k, v). (toLowerCase k, v)) ?qs) = set (map (\<lambda>(k, v). (toLowerCase k, v)) ?qs')"
    by code_simp
  have c: "map_outcome uri (url_rewrite_handler (example_cf_request ''/a.jpg'' ?qs None)) =
     Returned ''/site/transformed/a.jpg/f=webp,q=80,w=100,h=50''"
    by code_simp
  from rewrite_independent_of_parameter_order
         [OF a b, of "example_cf_request ''/a.jpg'' [] None"] c
  show ?thesis by (simp add: example_cf_request_def)
qed

theorem case_colliding_parameters_depend_on_order:
  "map_outcome uri (url_rewrite_handler
      (example_cf_request ''/a.jpg'' [(''W'', ''100''), (''w'', ''200'')] None)) =
     Returned ''/site/transformed/a.jpg/w=200''
   \<and> map_outcome uri (url_rewrite_handler
      (example_cf_request ''/a.jpg'' [(''w'', ''200''), (''W'', ''100'')] None)) =
     Returned ''/site/transformed/a.jpg/w=100''
   \<and> map_outcome uri (url_rewrite_handler
      (example_cf_request ''/a.jpg'' [(''W'', ''100''), (''w'', ''200'')] None))
     \<noteq> map_outcome uri (url_rewrite_handler
      (example_cf_request ''/a.jpg'' [(''w'', ''200''), (''W'', ''100'')] None))"
  by code_simp

subsection \<open>The format \<^verbatim>\<open>auto\<close>\<close>

lemma auto_format_not_empty: "auto_format hs \<noteq> []"
  by (simp add: auto_format_def split: option.splits)

lemma toLowerCase_eq_Nil: "toLowerCase v = [] \<longleftrightarrow> v = []"
  by (simp add: toLowerCase_def)

lemma normalized_parameter_auto:
  assumes "toLowerCase v = ''auto''"
  shows "normalized_parameter hs ''f'' v = Some (auto_format hs)"
proof -
  from assms have "v \<noteq> []" by (auto simp: toLowerCase_def)
  with assms show ?thesis
    by (simp add: normalized_parameter_def format_value_def SUPPORTED_FORMATS_def)
qed

lemma map_of_fold_auto:
  assumes "\<forall>(k, v) \<in> set qs. toLowerCase k = ''f'' \<longrightarrow> toLowerCase v = ''auto''"
  shows "map_of (fold (normalize_operation hs) qs ops) ''f'' =
           (if \<exists>(k, v) \<in> set qs. toLowerCase k = ''f'' then Some (auto_format hs)
            else map_of ops ''f'')"
  using assms
proof (induction qs arbitrary: ops)
  case Nil
  then show ?case by simp
next
  case (Cons p qs)
  obtain k v where p: "p = (k, v)" by (cases p)
  from Cons.prems have rest: "\<forall>(k, v) \<in> set qs. toLowerCase k = ''f'' \<longrightarrow> toLowerCase v = ''auto''"
    by simp
  show ?case
  proof (cases "toLowerCase k = ''f''")
    case True
    with Cons.prems p have "toLowerCase v = ''auto''" by simp
    then show ?thesis
      using True
      by (simp add: p Cons.IH [OF rest] normalize_operation_assign map_of_assign
          normalized_parameter_auto)
  next
    case False
    then show ?thesis
      by (simp add: p Cons.IH [OF rest] normalize_operation_assign map_of_assign)
  qed
qed

text \<open>
  C8, as amended.  For a request whose path ends in a supported extension, which carries
  the cookie \<^verbatim>\<open>crafterSite\<close> and whose format parameter (every parameter named
  \<^verbatim>\<open>f\<close> up to letter case) is \<^verbatim>\<open>auto\<close> up to letter case, the rewritten URI
  starts its operation segment with \<^verbatim>\<open>f=avif\<close> if the \<^verbatim>\<open>accept\<close> header
  contains \<^verbatim>\<open>avif\<close>, else with \<^verbatim>\<open>f=webp\<close> if it contains \<^verbatim>\<open>webp\<close>, and
  with \<^verbatim>\<open>f=jpeg\<close> otherwise, also without that header.
\<close>

theorem auto_format_from_accept:
  assumes "isTransformSupported (uri request)"
    and "cookies request ''crafterSite'' = Some site"
    and "querystring request = Some qs"
    and "\<exists>(k, v) \<in> set qs. toLowerCase k = ''f''"
    and "\<forall>(k, v) \<in> set qs. toLowerCase k = ''f'' \<longrightarrow> toLowerCase v = ''auto''"
  shows "\<exists>fields. map_outcome uri (url_rewrite_handler request) =
           Returned ((if site = [] then [] else ''/'' @ site) @ ''/transformed'' @ uri request @ ''/''
             @ join '',''
                 ((''f='' @ (case request_headers request ''accept'' of
                               None \<Rightarrow> ''jpeg''
                             | Some accept \<Rightarrow>
                                 if str_includes accept ''avif'' then ''avif''
                                 else if str_includes accept ''webp'' then ''webp''
                                 else ''jpeg'')) # fields))"
proof -
  let ?ops = "normalizedOperations_of (request_headers request) qs"
  from map_of_fold_auto [OF assms(5)] assms(4)
  have f: "map_of ?ops ''f'' = Some (auto_format (request_headers request))"
    by (simp add: normalizedOperations_of_def)
  then have ne: "?ops \<noteq> []" by auto
  from f have "\<exists>fields. normalizedOperationsArray ?ops =
      (''f='' @ auto_format (request_headers request)) # fields"
    by (simp add: normalizedOperationsArray_def pushed_def auto_format_not_empty)
  then obtain fields where
    "normalizedOperationsArray ?ops = (''f='' @ auto_format (request_headers request)) # fields" ..
  with ne assms(1-3) show ?thesis
    by (auto simp: url_rewrite_handler_def normalized_uri_def Let_def
        TRANSFORMED_FOLDER_PREFIX_def auto_format_def)
qed

theorem auto_format_from_accept_witness:
  "map_outcome uri (url_rewrite_handler
      (example_cf_request ''/a.jpg'' [(''w'', ''100''), (''F'', ''Auto'')]
         (Some ''image/webp,image/avif,*/*''))) =
     Returned ''/site/transformed/a.jpg/f=avif,w=100''
   \<and> map_outcome uri (url_rewrite_handler
      (example_cf_request ''/a.jpg'' [(''f'', ''auto'')] (Some ''image/webp,*/*''))) =
     Returned ''/site/transformed/a.jpg/f=webp''
   \<and> map_outcome uri (url_rewrite_handler
      (example_cf_request ''/a.jpg'' [(''f'', ''auto'')] None)) =
     Returned ''/site/transformed/a.jpg/f=jpeg''"
proof -
  let ?r = "example_cf_request ''/a.jpg'' [(''w'', ''100''), (''F'', ''Auto'')]
              (Some ''image/webp,image/avif,*/*'')"
  have a: "isTransformSupported (uri ?r)" by code_simp
  have b: "cookies ?r ''crafterSite'' = Some ''site''" by code_simp
  have c: "querystring ?r = Some [(''w'', ''100''), (''F'', ''Auto'')]" by code_simp
  have d: "\<exists>(k, v) \<in> set [(''w'', ''100''), (''F'', ''Auto'')]. toLowerCase k = ''f''" by code_simp
  have e: "\<forall>(k, v) \<in> set [(''w'', ''100''), (''F'', ''Auto'')].
             toLowerCase k = ''f'' \<longrightarrow> toLowerCase v = ''auto''" by code_simp
  from auto_format_from_accept [OF a b c d e]
  obtain fields where "map_outcome uri (url_rewrite_handler ?r) =
      Returned (''/site/transformed/a.jpg/'' @ join '','' (''f=avif'' # fields))"
    by (auto simp: example_cf_request_def)
  moreover have "map_outcome uri (url_rewrite_handler ?r) = Returned ''/site/transformed/a.jpg/f=avif,w=100''"
    by code_simp
  moreover have "map_outcome uri (url_rewrite_handler
      (example_cf_request ''/a.jpg'' [(''f'', ''auto'')] (Some ''image/webp,*/*''))) =
     Returned ''/site/transformed/a.jpg/f=webp''" by code_simp
  moreover have "map_outcome uri (url_rewrite_handler
      (example_cf_request ''/a.jpg'' [(''f'', ''auto'')] None)) =
     Returned ''/site/transformed/a.jpg/f=jpeg''" by code_simp
  ultimately show ?thesis by simp
qed

text \<open>
  C8 as stated fails for a path that does not end in a supported extension: the request
  keeps its path and its query string, and no format is resolved.
\<close>

theorem auto_format_unsupported_extension:
  "map_outcome (\<lambda>r. (uri r, querystring r)) (url_rewrite_handler
      (example_cf_request ''/banner.gif'' [(''f'', ''auto'')] (Some ''image/avif,image/webp''))) =
     Returned (''/site/banner.gif'', Some [(''f'', ''auto'')])"
  by code_simp

subsection \<open>No valid operation\<close>

lemma fold_normalize_Nil:
  "fold (normalize_operation hs) qs ops = [] \<longleftrightarrow>
     ops = [] \<and> (\<forall>p \<in> set qs. normalize_operation hs p [] = [])"
proof (induction qs arbitrary: ops)
  case Nil
  then show ?case by simp
next
  case (Cons p qs)
  obtain k v where p: "p = (k, v)" by (cases p)
  show ?case
    by (auto simp: p Cons.IH normalize_operation_assign assign_eq_Nil)
qed

lemma nothing_survives_iff:
  "normalizedOperations_of hs qs = [] \<longleftrightarrow> (\<forall>p \<in> set qs. normalize_operation hs p [] = [])"
  by (simp add: normalizedOperations_of_def fold_normalize_Nil)

text \<open>
  C9, as amended.  For a request whose path ends in a supported extension and which
  carries the cookie \<^verbatim>\<open>crafterSite\<close>, if there is no query string or no parameter
  of it survives, the rewritten URI is the site of the cookie (when not empty), the folder
  \<^verbatim>\<open>/transformed\<close>, the path and \<^verbatim>\<open>/original\<close>, and the query string is
  emptied.
\<close>

theorem no_operation_original_suffix:
  assumes "isTransformSupported (uri request)"
    and "cookies request ''crafterSite'' = Some site"
    and "querystring request = None
           \<or> (\<exists>qs. querystring request = Some qs
                  \<and> normalizedOperations_of (request_headers request) qs = [])"
  shows "url_rewrite_handler request =
           Returned (request\<lparr>uri := (if site = [] then [] else ''/'' @ site) @ ''/transformed''
                                     @ uri request @ ''/original'',
                              querystring := Some []\<rparr>)"
  using assms
  by (auto simp: url_rewrite_handler_def normalized_uri_def Let_def TRANSFORMED_FOLDER_PREFIX_def)

theorem no_operation_original_suffix_witness:
  "normalizedOperations_of (\<lambda>_. None) [(''w'', ''abc''), (''f'', ''bmp''), (''q'', ''0''), (''x'', ''1'')] = []
   \<and> map_outcome uri (url_rewrite_handler
        (example_cf_request ''/a.jpg'' [(''w'', ''abc''), (''f'', ''bmp''), (''q'', ''0''), (''x'', ''1'')] None)) =
       Returned ''/site/transformed/a.jpg/original''"
proof -
  let ?qs = "[(''w'', ''abc''), (''f'', ''bmp''), (''q'', ''0''), (''x'', ''1'')]"
  let ?r = "example_cf_request ''/a.jpg'' ?qs None"
  have a: "isTransformSupported (uri ?r)" by code_simp
  have b: "cookies ?r ''crafterSite'' = Some ''site''" by code_simp
  have n: "normalizedOperations_of (\<lambda>_. None) ?qs = []" by code_simp
  have c: "querystring ?r = None
             \<or> (\<exists>qs. querystring ?r = Some qs \<and> normalizedOperations_of (request_headers ?r) qs = [])"
    using n by (simp add: example_cf_request_def)
  from no_operation_original_suffix [OF a b c] n show ?thesis
    by (simp add: example_cf_request_def)
qed

text \<open>
  C9 as stated fails for a path that does not end in a supported extension: the path gets
  no suffix.
\<close>

theorem unsupported_extension_not_tagged:
  "map_outcome uri (url_rewrite_handler (example_cf_request ''/banner.gif'' [] None)) =
     Returned ''/site/banner.gif''"
  by code_simp

subsection \<open>The other edge function\<close>

text \<open>
  The other edge function ends the path with \<^verbatim>\<open>/\<close> where its comment announces
  \<^verbatim>\<open>/original\<close>, and it never writes a width, a height or a quality, which it
  stores under one name and reads under another.
\<close>

lemma alt_handler_empty_segment:
  "uri (url_rewrite_handler_alt (example_cf_request ''/a.jpg'' [] None)) = ''/a.jpg/''"
  "uri (url_rewrite_handler_alt ((example_cf_request ''/a.jpg'' [] None)\<lparr>querystring := None\<rparr>)) = ''/a.jpg/''"
  "uri (url_rewrite_handler_alt (example_cf_request ''/a.jpg'' [(''w'', ''100''), (''q'', ''80'')] None)) = ''/a.jpg/''"
  "uri (url_rewrite_handler_alt (example_cf_request ''/a.jpg'' [(''w'', ''100''), (''f'', ''png'')] None)) = ''/a.jpg/f=png''"
  by code_simp+

end
